theory Spec2Isabelle
  imports Complex_Main "HOL-Library.Word"
begin

section \<open>Machine integers\<close>

text \<open>
  \<^verbatim>\<open>int\<close> is a 32-bit and \<^verbatim>\<open>int64_t\<close> a 64-bit two's complement integer: \<open>sint\<close> reads
  a word as such, \<open><s\<close> compares two of them, \<open>+\<close> and \<open>*\<close> wrap around. A signed
  overflow is undefined behaviour in C++; the model takes what the usual compilers
  produce, the wrap-around.
\<close>

type_synonym cint = "32 word"
type_synonym int64 = "64 word"

text \<open>The integers that an \<^verbatim>\<open>int64_t\<close> holds.\<close>

definition fits_int64 :: "int \<Rightarrow> bool" where
  "fits_int64 x \<longleftrightarrow> - 9223372036854775808 \<le> x \<and> x < 9223372036854775808"

text \<open>Integer division of C++: the quotient is truncated towards zero.\<close>

definition cpp_div :: "int \<Rightarrow> int \<Rightarrow> int" where
  "cpp_div a b = (if (a < 0) = (b < 0) then \<bar>a\<bar> div \<bar>b\<bar> else - (\<bar>a\<bar> div \<bar>b\<bar>))"

definition int64_div :: "int64 \<Rightarrow> int64 \<Rightarrow> int64" where
  "int64_div a b = word_of_int (cpp_div (sint a) (sint b))"

section \<open>Time: clocks, time points and durations\<close>

text \<open>
  With libstdc++ \<^verbatim>\<open>std::chrono::system_clock::time_point\<close> is a count of nanoseconds
  since the epoch and \<^verbatim>\<open>std::chrono::milliseconds\<close> a count of milliseconds, both held
  in an \<^verbatim>\<open>int64_t\<close>.
\<close>

type_synonym time_point = int64
type_synonym milliseconds = int64

text \<open>
  \<^verbatim>\<open>time_point + milliseconds\<close> converts the duration to the ticks of the clock, a
  multiplication by 1000000, and adds the two counts; \<^verbatim>\<open>std::min(a, b)\<close> returns \<open>b\<close>
  when \<open>b < a\<close> and \<open>a\<close> otherwise.
\<close>

definition ticks_per_ms :: int64 where
  "ticks_per_ms = 1000000"

definition plus_ms :: "time_point \<Rightarrow> milliseconds \<Rightarrow> time_point" where
  "plus_ms t d = t + d * ticks_per_ms"

definition std_min :: "time_point \<Rightarrow> time_point \<Rightarrow> time_point" where
  "std_min a b = (if b <s a then b else a)"

text \<open>
  \<^verbatim>\<open>std::chrono::duration<Rep, Period>\<close> for a signed integral \<^verbatim>\<open>Rep\<close> of at most 64
  bits: a count of periods of \<open>period_num / period_den\<close> seconds.
\<close>

datatype duration = Duration (count: int64) (period_num: int) (period_den: int)

definition of_milliseconds :: "milliseconds \<Rightarrow> duration" where
  "of_milliseconds n = Duration n 1 1000"


definition of_seconds :: "int64 \<Rightarrow> duration" where
  "of_seconds n = Duration n 1 1"


text \<open>
  \<^verbatim>\<open>std::chrono::duration_cast<std::chrono::milliseconds>\<close>: with \<open>CF\<close> the ratio
  \<open>Period / milli\<close> in lowest terms, a constant of the instantiation, the result is
  \<open>count * CF::num / CF::den\<close>, computed in \<^verbatim>\<open>int64_t\<close>.
\<close>

definition cf_num :: "duration \<Rightarrow> int" where
  "cf_num d = period_num d * 1000 div gcd (period_num d * 1000) (period_den d)"

definition cf_den :: "duration \<Rightarrow> int" where
  "cf_den d = period_den d div gcd (period_num d * 1000) (period_den d)"

definition duration_cast_ms :: "duration \<Rightarrow> milliseconds" where
  "duration_cast_ms d =
     int64_div (count d * word_of_int (cf_num d)) (word_of_int (cf_den d))"

text \<open>
  A clock is copied by value into the policy and read through \<^verbatim>\<open>now() const\<close>. What
  it reads (the system time, or the time a test has set) lies outside the policy: the
  type \<open>'w\<close> is that outside world at the moment of a call, and a clock is a reading of it.
\<close>

type_synonym 'w Clock = "'w \<Rightarrow> time_point"

definition DefaultClock :: "time_point Clock" where
  "DefaultClock = (\<lambda>system_time. system_time)"

section \<open>The status of a failed call\<close>

text \<open>
  Modelled from the spec: \<^verbatim>\<open>gax/status.h\<close> is not among the sources. ``Status/failure
  collaborator: must expose a single capability, `is this failure permanent', consumed
  by OnFailure. No other status fields are read by this core.''
\<close>

record Status =
  IsPermanentFailure :: bool

section \<open>LimitedErrorCountRetryPolicy\<close>

text \<open>
  The members \<^verbatim>\<open>c_\<close>, \<^verbatim>\<open>rpc_duration_\<close>, \<^verbatim>\<open>failure_count_\<close> and \<^verbatim>\<open>max_failures_\<close>.
  A name cannot end in an underscore here, so the fields of this class carry the prefix
  \<open>ec\<close> and those of the other class the prefix \<open>ld\<close>, as do the member functions.
\<close>

record 'w LimitedErrorCountRetryPolicy =
  ec_c :: "'w Clock"
  ec_rpc_duration :: milliseconds
  ec_failure_count :: cint
  ec_max_failures :: cint

definition LimitedErrorCountRetryPolicy ::
  "cint \<Rightarrow> duration \<Rightarrow> 'w Clock \<Rightarrow> 'w LimitedErrorCountRetryPolicy" where
  "LimitedErrorCountRetryPolicy max_failures rpc_duration c =
     \<lparr> ec_c = c,
       ec_rpc_duration = duration_cast_ms rpc_duration,
       ec_failure_count = 0,
       ec_max_failures = max_failures \<rparr>"

text \<open>
  The copy constructor delegates to the constructor above with the stored
  \<^verbatim>\<open>max_failures_\<close>, \<^verbatim>\<open>rpc_duration_\<close> (a \<^verbatim>\<open>milliseconds\<close> value) and a copy of \<^verbatim>\<open>c_\<close>.
\<close>

definition ec_copy ::
  "'w LimitedErrorCountRetryPolicy \<Rightarrow> 'w LimitedErrorCountRetryPolicy" where
  "ec_copy rhs =
     LimitedErrorCountRetryPolicy (ec_max_failures rhs) (of_milliseconds (ec_rpc_duration rhs))
       (ec_c rhs)"

text \<open>
  A member function is a function of the object and of the world; it returns its value
  and the object as the call leaves it. \<^verbatim>\<open>clone\<close> returns the copy that it allocates.
  The bodies of \<^verbatim>\<open>clone\<close> and \<^verbatim>\<open>OperationDeadline\<close>, both declared \<^verbatim>\<open>const\<close>, assign
  no member; the body of \<^verbatim>\<open>OnFailure\<close> assigns \<^verbatim>\<open>failure_count_\<close>.
\<close>

definition ec_clone ::
  "'w LimitedErrorCountRetryPolicy
     \<Rightarrow> 'w LimitedErrorCountRetryPolicy \<times> 'w LimitedErrorCountRetryPolicy" where
  "ec_clone p = (ec_copy p, p)"

text \<open>
  \<^verbatim>\<open>!status.IsPermanentFailure() && failure_count_++ < max_failures_\<close>: the right operand
  of \<^verbatim>\<open>&&\<close> is evaluated only when the left one is true; the post-increment compares
  the old value and stores the new one.
\<close>

definition ec_OnFailure ::
  "Status \<Rightarrow> 'w LimitedErrorCountRetryPolicy \<Rightarrow> bool \<times> 'w LimitedErrorCountRetryPolicy" where
  "ec_OnFailure status p =
     (if IsPermanentFailure status then (False, p)
      else (ec_failure_count p <s ec_max_failures p,
            p\<lparr>ec_failure_count := ec_failure_count p + 1\<rparr>))"

definition ec_OperationDeadline ::
  "'w LimitedErrorCountRetryPolicy \<Rightarrow> 'w
     \<Rightarrow> time_point \<times> 'w LimitedErrorCountRetryPolicy" where
  "ec_OperationDeadline p w = (plus_ms (ec_c p w) (ec_rpc_duration p), p)"

section \<open>LimitedDurationRetryPolicy\<close>

text \<open>The members \<^verbatim>\<open>c_\<close>, \<^verbatim>\<open>rpc_duration_\<close>, \<^verbatim>\<open>max_duration_\<close> and \<^verbatim>\<open>deadline_\<close>.\<close>

record 'w LimitedDurationRetryPolicy =
  ld_c :: "'w Clock"
  ld_rpc_duration :: milliseconds
  ld_max_duration :: milliseconds
  ld_deadline :: time_point

text \<open>The constructor reads the clock: \<open>w\<close> is the world at construction.\<close>

definition LimitedDurationRetryPolicy ::
  "duration \<Rightarrow> duration \<Rightarrow> 'w Clock \<Rightarrow> 'w \<Rightarrow> 'w LimitedDurationRetryPolicy" where
  "LimitedDurationRetryPolicy max_duration rpc_duration c w =
     \<lparr> ld_c = c,
       ld_rpc_duration = duration_cast_ms rpc_duration,
       ld_max_duration = duration_cast_ms max_duration,
       ld_deadline = plus_ms (c w) (duration_cast_ms max_duration) \<rparr>"

text \<open>The copy constructor reads the clock as well: \<open>w\<close> is the world at the copy.\<close>

definition ld_copy ::
  "'w LimitedDurationRetryPolicy \<Rightarrow> 'w \<Rightarrow> 'w LimitedDurationRetryPolicy" where
  "ld_copy rhs w =
     LimitedDurationRetryPolicy (of_milliseconds (ld_max_duration rhs))
       (of_milliseconds (ld_rpc_duration rhs)) (ld_c rhs) w"

definition ld_clone ::
  "'w LimitedDurationRetryPolicy \<Rightarrow> 'w
     \<Rightarrow> 'w LimitedDurationRetryPolicy \<times> 'w LimitedDurationRetryPolicy" where
  "ld_clone p w = (ld_copy p w, p)"

definition ld_OnFailure ::
  "Status \<Rightarrow> 'w \<Rightarrow> 'w LimitedDurationRetryPolicy \<Rightarrow> bool \<times> 'w LimitedDurationRetryPolicy" where
  "ld_OnFailure status w p = (\<not> IsPermanentFailure status \<and> ld_c p w <s ld_deadline p, p)"

definition ld_OperationDeadline ::
  "'w LimitedDurationRetryPolicy \<Rightarrow> 'w
     \<Rightarrow> time_point \<times> 'w LimitedDurationRetryPolicy" where
  "ld_OperationDeadline p w =
     (std_min (ld_deadline p) (plus_ms (ld_c p w) (ld_rpc_duration p)), p)"

section \<open>The interface RetryPolicy\<close>

text \<open>The abstract class with its two implementations; a virtual call selects on the variant.\<close>

datatype 'w RetryPolicy =
    ErrorCountLimited "'w LimitedErrorCountRetryPolicy"
  | DurationLimited "'w LimitedDurationRetryPolicy"

fun clone :: "'w RetryPolicy \<Rightarrow> 'w \<Rightarrow> 'w RetryPolicy \<times> 'w RetryPolicy" where
  "clone (ErrorCountLimited p) w = map_prod ErrorCountLimited ErrorCountLimited (ec_clone p)"
| "clone (DurationLimited p) w = map_prod DurationLimited DurationLimited (ld_clone p w)"

fun OnFailure :: "Status \<Rightarrow> 'w \<Rightarrow> 'w RetryPolicy \<Rightarrow> bool \<times> 'w RetryPolicy" where
  "OnFailure status w (ErrorCountLimited p) = apsnd ErrorCountLimited (ec_OnFailure status p)"
| "OnFailure status w (DurationLimited p) = apsnd DurationLimited (ld_OnFailure status w p)"

fun OperationDeadline :: "'w RetryPolicy \<Rightarrow> 'w \<Rightarrow> time_point \<times> 'w RetryPolicy" where
  "OperationDeadline (ErrorCountLimited p) w = apsnd ErrorCountLimited (ec_OperationDeadline p w)"
| "OperationDeadline (DurationLimited p) w = apsnd DurationLimited (ld_OperationDeadline p w)"

section \<open>Sequences of calls\<close>

text \<open>
  The retry loop of a caller: one call of \<^verbatim>\<open>OnFailure\<close> after another on the same
  object. Each entry of the result is the value returned and the object after the call.
\<close>

fun ec_OnFailure_seq ::
  "'w LimitedErrorCountRetryPolicy \<Rightarrow> Status list
     \<Rightarrow> (bool \<times> 'w LimitedErrorCountRetryPolicy) list" where
  "ec_OnFailure_seq p [] = []"
| "ec_OnFailure_seq p (status # rest) =
     ec_OnFailure status p # ec_OnFailure_seq (snd (ec_OnFailure status p)) rest"

fun ld_OnFailure_seq ::
  "'w LimitedDurationRetryPolicy \<Rightarrow> (Status \<times> 'w) list
     \<Rightarrow> (bool \<times> 'w LimitedDurationRetryPolicy) list" where
  "ld_OnFailure_seq p [] = []"
| "ld_OnFailure_seq p ((status, w) # rest) =
     ld_OnFailure status w p # ld_OnFailure_seq (snd (ld_OnFailure status w p)) rest"

text \<open>Calls of the three member functions, mixed, through the interface.\<close>

datatype call = Call_OnFailure Status | Call_OperationDeadline | Call_clone

datatype 'w reply = Retry bool | Deadline time_point | Cloned "'w RetryPolicy"

fun call_policy :: "call \<Rightarrow> 'w \<Rightarrow> 'w RetryPolicy \<Rightarrow> 'w reply \<times> 'w RetryPolicy" where
  "call_policy (Call_OnFailure status) w p = apfst Retry (OnFailure status w p)"
| "call_policy Call_OperationDeadline w p = apfst Deadline (OperationDeadline p w)"
| "call_policy Call_clone w p = apfst Cloned (clone p w)"

fun call_seq :: "'w RetryPolicy \<Rightarrow> (call \<times> 'w) list \<Rightarrow> 'w reply list \<times> 'w RetryPolicy" where
  "call_seq p [] = ([], p)"
| "call_seq p ((c, w) # rest) =
     (fst (call_policy c w p) # fst (call_seq (snd (call_policy c w p)) rest),
      snd (call_seq (snd (call_policy c w p)) rest))"

fun is_OnFailure :: "call \<times> 'w \<Rightarrow> bool" where
  "is_OnFailure (Call_OnFailure status, w) = True"
| "is_OnFailure (Call_OperationDeadline, w) = False"
| "is_OnFailure (Call_clone, w) = False"

fun is_Retry :: "'w reply \<Rightarrow> bool" where
  "is_Retry (Retry r) = True"
| "is_Retry (Deadline t) = False"
| "is_Retry (Cloned q) = False"

section \<open>Objects on the heap\<close>

text \<open>
  A caller holds pointers to policies. The heap is the list of the objects allocated so
  far and an address is an index into it. A call through a pointer runs the member
  function on the object at that address and stores the object as the call leaves it;
  \<^verbatim>\<open>clone\<close> also puts its copy at a new address and returns that address. A call through
  an address that holds no object has no result.
\<close>

type_synonym 'w heap = "'w RetryPolicy list"

definition heap_clone :: "nat \<Rightarrow> 'w \<Rightarrow> 'w heap \<Rightarrow> (nat \<times> 'w heap) option" where
  "heap_clone this w h =
     (if this < length h
      then Some (length h, h[this := snd (clone (h ! this) w)] @ [fst (clone (h ! this) w)])
      else None)"

definition heap_OnFailure :: "nat \<Rightarrow> Status \<Rightarrow> 'w \<Rightarrow> 'w heap \<Rightarrow> (bool \<times> 'w heap) option" where
  "heap_OnFailure this status w h =
     (if this < length h
      then Some (fst (OnFailure status w (h ! this)),
                 h[this := snd (OnFailure status w (h ! this))])
      else None)"

section \<open>The truncation of a duration, as the specification words it\<close>



section \<open>Auxiliary facts\<close>

lemma sint_inc:
  "sint (x :: cint) < 2147483647 \<Longrightarrow> sint (x + 1) = sint x + 1"
proof -
  assume a: "sint x < 2147483647"
  have b: "- 2147483648 \<le> sint x" using sint_ge [of x] by simp
  show ?thesis
    using a b by (simp add: sint_word_ariths signed_take_bit_int_eq_self)
qed

lemma sint_of_nat_small:
  "n < 2147483648 \<Longrightarrow> sint (of_nat n :: cint) = int n"
  by (simp add: signed_of_nat signed_take_bit_int_eq_self)


lemma sint_add_fits:
  "fits_int64 (sint a + sint b) \<Longrightarrow> sint (a + b :: int64) = sint a + sint b"
  by (simp add: fits_int64_def sint_word_ariths signed_take_bit_int_eq_self)

lemma sint_mult_fits:
  "fits_int64 (sint a * sint b) \<Longrightarrow> sint (a * b :: int64) = sint a * sint b"
  by (simp add: fits_int64_def sint_word_ariths signed_take_bit_int_eq_self)

lemma sint_ticks_per_ms: "sint ticks_per_ms = 1000000"
  by (simp add: ticks_per_ms_def)

lemma sint_plus_ms:
  assumes "fits_int64 (sint d * 1000000)" and "fits_int64 (sint t + sint d * 1000000)"
  shows "sint (plus_ms t d) = sint t + sint d * 1000000"
proof -
  have m: "sint (d * ticks_per_ms) = sint d * 1000000"
    using assms(1) sint_mult_fits [of d ticks_per_ms] by (simp add: sint_ticks_per_ms)
  then show ?thesis
    using assms(2) sint_add_fits [of t "d * ticks_per_ms"] by (simp add: plus_ms_def)
qed



lemma cpp_div_1: "cpp_div a 1 = a"
  by (simp add: cpp_div_def)

lemma cf_of_milliseconds: "cf_num (of_milliseconds n) = 1" "cf_den (of_milliseconds n) = 1"
  by (simp_all add: cf_num_def cf_den_def of_milliseconds_def)

lemma duration_cast_ms_of_milliseconds: "duration_cast_ms (of_milliseconds n) = n"
  by (simp add: duration_cast_ms_def int64_div_def cf_of_milliseconds cpp_div_1)
    (simp add: of_milliseconds_def)

lemma duration_cast_ms_5s: "duration_cast_ms (of_seconds 5) = 5000"
  by (simp add: duration_cast_ms_def int64_div_def cf_num_def cf_den_def of_seconds_def cpp_div_def)









lemma ec_OnFailure_keeps:
  "ec_c (snd (ec_OnFailure status p)) = ec_c p"
  "ec_rpc_duration (snd (ec_OnFailure status p)) = ec_rpc_duration p"
  "ec_max_failures (snd (ec_OnFailure status p)) = ec_max_failures p"
  by (simp_all add: ec_OnFailure_def)

lemma ec_OnFailure_seq_keeps:
  "q \<in> set (ec_OnFailure_seq p ss) \<Longrightarrow>
     ec_c (snd q) = ec_c p \<and> ec_rpc_duration (snd q) = ec_rpc_duration p
     \<and> ec_max_failures (snd q) = ec_max_failures p"
proof (induction ss arbitrary: p)
  case Nil
  then show ?case by simp
next
  case (Cons s ss)
  then show ?case by (auto simp: ec_OnFailure_keeps)
qed

lemma ld_OnFailure_seq_keeps:
  "q \<in> set (ld_OnFailure_seq p cs) \<Longrightarrow> snd q = p"
proof (induction cs arbitrary: p)
  case Nil
  then show ?case by simp
next
  case (Cons c cs)
  obtain s w where c: "c = (s, w)" by (cases c)
  have "snd (ld_OnFailure s w p) = p" by (simp add: ld_OnFailure_def)
  with Cons c show ?case by auto
qed

lemma length_ec_OnFailure_seq: "length (ec_OnFailure_seq p ss) = length ss"
  by (induction ss arbitrary: p) simp_all

lemma ec_OnFailure_seq_transient_nth:
  "\<forall>s \<in> set ss. \<not> IsPermanentFailure s \<Longrightarrow> i < length ss \<Longrightarrow>
     ec_OnFailure_seq p ss ! i =
       (ec_failure_count p + of_nat i <s ec_max_failures p,
        p\<lparr>ec_failure_count := ec_failure_count p + of_nat i + 1\<rparr>)"
proof (induction ss arbitrary: p i)
  case Nil
  then show ?case by simp
next
  case (Cons s ss)
  have s: "\<not> IsPermanentFailure s" using Cons.prems by simp
  show ?case
  proof (cases i)
    case 0
    with s show ?thesis by (simp add: ec_OnFailure_def)
  next
    case (Suc j)
    have step: "snd (ec_OnFailure s p) = p\<lparr>ec_failure_count := ec_failure_count p + 1\<rparr>"
      using s by (simp add: ec_OnFailure_def)
    have "j < length ss" using Cons.prems Suc by simp
    moreover have "\<forall>s \<in> set ss. \<not> IsPermanentFailure s" using Cons.prems by simp
    ultimately show ?thesis
      using Cons.IH [of j "snd (ec_OnFailure s p)"] Suc
      by (simp add: step ac_simps)
  qed
qed

lemma ec_fresh_transient_nth:
  assumes "\<forall>s \<in> set ss. \<not> IsPermanentFailure s" and "i < length ss" and "i < 2147483647"
  shows "fst (ec_OnFailure_seq (LimitedErrorCountRetryPolicy N R c) ss ! i) = (int i < sint N)"
    and "sint (ec_failure_count (snd (ec_OnFailure_seq (LimitedErrorCountRetryPolicy N R c) ss ! i)))
           = int i + 1"
proof -
  have i: "sint (of_nat i :: cint) = int i" using assms(3) by (simp add: sint_of_nat_small)
  then have "sint (of_nat i + 1 :: cint) = int i + 1"
    using assms(3) sint_inc [of "of_nat i"] by simp
  with i show "fst (ec_OnFailure_seq (LimitedErrorCountRetryPolicy N R c) ss ! i) = (int i < sint N)"
    and "sint (ec_failure_count (snd (ec_OnFailure_seq (LimitedErrorCountRetryPolicy N R c) ss ! i)))
           = int i + 1"
    using ec_OnFailure_seq_transient_nth [OF assms(1,2), of "LimitedErrorCountRetryPolicy N R c"]
    by (simp_all add: LimitedErrorCountRetryPolicy_def word_sless_alt)
qed

lemma ec_exhausted_seq:
  "sint (ec_max_failures p) \<le> sint (ec_failure_count p) \<Longrightarrow>
   sint (ec_failure_count p) + int (length (filter (\<lambda>s. \<not> IsPermanentFailure s) ss)) \<le> 2147483647 \<Longrightarrow>
   q \<in> set (ec_OnFailure_seq p ss) \<Longrightarrow> \<not> fst q"
proof (induction ss arbitrary: p)
  case Nil
  then show ?case by simp
next
  case (Cons s ss)
  show ?case
  proof (cases "IsPermanentFailure s")
    case True
    then have "ec_OnFailure s p = (False, p)" by (simp add: ec_OnFailure_def)
    with Cons True show ?thesis by auto
  next
    case False
    let ?p' = "p\<lparr>ec_failure_count := ec_failure_count p + 1\<rparr>"
    have now: "ec_OnFailure s p = (False, ?p')"
      using False Cons.prems(1) by (simp add: ec_OnFailure_def word_sless_alt)
    have "sint (ec_failure_count p) < 2147483647" using Cons.prems(2) False by simp
    then have inc: "sint (ec_failure_count ?p') = sint (ec_failure_count p) + 1"
      by (simp add: sint_inc)
    have "q = (False, ?p') \<or> q \<in> set (ec_OnFailure_seq ?p' ss)"
      using Cons.prems(3) now by simp
    then show ?thesis
    proof
      assume "q = (False, ?p')"
      then show ?thesis by simp
    next
      assume "q \<in> set (ec_OnFailure_seq ?p' ss)"
      moreover have "sint (ec_max_failures ?p') \<le> sint (ec_failure_count ?p')"
        using Cons.prems(1) inc by simp
      moreover have "sint (ec_failure_count ?p')
          + int (length (filter (\<lambda>s. \<not> IsPermanentFailure s) ss)) \<le> 2147483647"
        using Cons.prems(2) False inc by simp
      ultimately show ?thesis by (rule Cons.IH [rotated 2])
    qed
  qed
qed

lemma ld_exhausted_seq:
  "sint (ld_deadline d) \<le> t \<Longrightarrow> sorted (t # map (\<lambda>c. sint (ld_c d (snd c))) cs) \<Longrightarrow>
   q \<in> set (ld_OnFailure_seq d cs) \<Longrightarrow> \<not> fst q"
proof (induction cs arbitrary: t)
  case Nil
  then show ?case by simp
next
  case (Cons c cs)
  obtain s w where c: "c = (s, w)" by (cases c)
  have keep: "snd (ld_OnFailure s w d) = d" by (simp add: ld_OnFailure_def)
  have late: "sint (ld_deadline d) \<le> sint (ld_c d w)" using Cons.prems(1,2) c by simp
  then have no: "\<not> fst (ld_OnFailure s w d)" by (simp add: ld_OnFailure_def word_sless_alt)
  have "q = ld_OnFailure s w d \<or> q \<in> set (ld_OnFailure_seq d cs)"
    using Cons.prems(3) c keep by simp
  then show ?case
  proof
    assume "q = ld_OnFailure s w d"
    with no show ?thesis by simp
  next
    assume "q \<in> set (ld_OnFailure_seq d cs)"
    moreover have "sorted (sint (ld_c d w) # map (\<lambda>c. sint (ld_c d (snd c))) cs)"
      using Cons.prems(2) c by simp
    ultimately show ?thesis using Cons.IH [OF late] by blast
  qed
qed




lemma DefaultClock_reads: "DefaultClock t = t"
  by (simp add: DefaultClock_def)

lemma ec_copy_fields:
  "ec_copy p = \<lparr>ec_c = ec_c p, ec_rpc_duration = ec_rpc_duration p, ec_failure_count = 0,
                 ec_max_failures = ec_max_failures p\<rparr>"
  by (simp add: ec_copy_def LimitedErrorCountRetryPolicy_def duration_cast_ms_of_milliseconds)

lemma ld_copy_fields:
  "ld_copy d w = \<lparr>ld_c = ld_c d, ld_rpc_duration = ld_rpc_duration d,
                   ld_max_duration = ld_max_duration d,
                   ld_deadline = plus_ms (ld_c d w) (ld_max_duration d)\<rparr>"
  by (simp add: ld_copy_def LimitedDurationRetryPolicy_def duration_cast_ms_of_milliseconds)

lemma clone_keeps: "snd (clone p w) = p"
  by (cases p) (simp_all add: ec_clone_def ld_clone_def)

lemma OperationDeadline_keeps: "snd (OperationDeadline p w) = p"
  by (cases p) (simp_all add: ec_OperationDeadline_def ld_OperationDeadline_def)

lemma length_call_seq: "length (fst (call_seq p calls)) = length calls"
  by (induction calls arbitrary: p) auto

lemma call_seq_append:
  "call_seq p (xs @ ys) =
     (fst (call_seq p xs) @ fst (call_seq (snd (call_seq p xs)) ys),
      snd (call_seq (snd (call_seq p xs)) ys))"
proof (induction xs arbitrary: p)
  case Nil
  then show ?case by simp
next
  case (Cons x xs)
  obtain c w where x: "x = (c, w)" by (cases x)
  show ?case using Cons.IH [of "snd (call_policy c w p)"] by (simp add: x)
qed

lemma call_seq_filter:
  "snd (call_seq p calls) = snd (call_seq p (filter is_OnFailure calls))
   \<and> filter is_Retry (fst (call_seq p calls)) = fst (call_seq p (filter is_OnFailure calls))"
proof (induction calls arbitrary: p)
  case Nil
  then show ?case by simp
next
  case (Cons x xs)
  obtain c w where x: "x = (c, w)" by (cases x)
  show ?case
  proof (cases c)
    case (Call_OnFailure status)
    with x Cons.IH [of "snd (OnFailure status w p)"] show ?thesis by simp
  next
    case Call_OperationDeadline
    with x Cons.IH [of p] show ?thesis by (simp add: OperationDeadline_keeps)
  next
    case Call_clone
    with x Cons.IH [of p] show ?thesis by (simp add: clone_keeps)
  qed
qed

section \<open>The deadline of the next attempt\<close>







section \<open>The decision to retry\<close>

text \<open>
  Claim C4. For both variants and every internal state, \<^verbatim>\<open>OnFailure\<close> returns false
  when the status is a permanent failure.
\<close>

theorem OnFailure_permanent:
  "IsPermanentFailure status \<Longrightarrow> fst (OnFailure status w p) = False"
  by (cases p) (simp_all add: ec_OnFailure_def ld_OnFailure_def)

theorem OnFailure_permanent_witness:
  "IsPermanentFailure \<lparr>IsPermanentFailure = True\<rparr>
   \<and> fst (OnFailure \<lparr>IsPermanentFailure = True\<rparr> (0::time_point)
        (ErrorCountLimited (LimitedErrorCountRetryPolicy 3 (of_milliseconds 100) DefaultClock))) = False
   \<and> fst (OnFailure \<lparr>IsPermanentFailure = True\<rparr> (0::time_point)
        (DurationLimited (LimitedDurationRetryPolicy (of_seconds 5) (of_seconds 1) DefaultClock 0))) = False"
  using OnFailure_permanent [of "\<lparr>IsPermanentFailure = True\<rparr>" "0::time_point"
      "ErrorCountLimited (LimitedErrorCountRetryPolicy 3 (of_milliseconds 100) DefaultClock)"]
    OnFailure_permanent [of "\<lparr>IsPermanentFailure = True\<rparr>" "0::time_point"
      "DurationLimited (LimitedDurationRetryPolicy (of_seconds 5) (of_seconds 1) DefaultClock 0)"]
  by simp




section \<open>The failure counter\<close>

text \<open>
  Claim C1, as amended. A call of \<^verbatim>\<open>OnFailure\<close> on a LimitedErrorCountRetryPolicy with a
  status that is not a permanent failure advances the failure counter by exactly one,
  whatever the call returns, as long as the counter is below \<^verbatim>\<open>INT_MAX\<close>. A call with a
  permanent failure returns false and leaves the counter, and the whole object, as it
  was: \<^verbatim>\<open>&&\<close> does not evaluate the increment.
\<close>

theorem ec_OnFailure_counter:
  "(\<not> IsPermanentFailure status \<longrightarrow> sint (ec_failure_count p) < 2147483647 \<longrightarrow>
      sint (ec_failure_count (snd (ec_OnFailure status p))) = sint (ec_failure_count p) + 1)
   \<and> (IsPermanentFailure status \<longrightarrow> ec_OnFailure status p = (False, p))"
  by (simp add: ec_OnFailure_def sint_inc)

text \<open>With no failure allowed: a transient failure is refused and counted, a permanent one is
  refused and not counted.\<close>

theorem ec_OnFailure_counter_witness:
  "\<not> IsPermanentFailure \<lparr>IsPermanentFailure = False\<rparr>
   \<and> sint (ec_failure_count (LimitedErrorCountRetryPolicy 0 (of_milliseconds 100) DefaultClock))
         < 2147483647
   \<and> ec_OnFailure \<lparr>IsPermanentFailure = False\<rparr>
        (LimitedErrorCountRetryPolicy 0 (of_milliseconds 100) DefaultClock)
       = (False, \<lparr>ec_c = DefaultClock, ec_rpc_duration = 100, ec_failure_count = 1,
                  ec_max_failures = 0\<rparr>)
   \<and> IsPermanentFailure \<lparr>IsPermanentFailure = True\<rparr>
   \<and> ec_OnFailure \<lparr>IsPermanentFailure = True\<rparr>
        (LimitedErrorCountRetryPolicy 0 (of_milliseconds 100) DefaultClock)
       = (False, \<lparr>ec_c = DefaultClock, ec_rpc_duration = 100, ec_failure_count = 0,
                  ec_max_failures = 0\<rparr>)"
  using
    ec_OnFailure_counter [of "\<lparr>IsPermanentFailure = False\<rparr>"
      "LimitedErrorCountRetryPolicy 0 (of_milliseconds 100) DefaultClock"]
    ec_OnFailure_counter [of "\<lparr>IsPermanentFailure = True\<rparr>"
      "LimitedErrorCountRetryPolicy 0 (of_milliseconds 100) DefaultClock"]
  by (simp add: ec_OnFailure_def LimitedErrorCountRetryPolicy_def
      duration_cast_ms_of_milliseconds)

text \<open>
  The claim as it was written fails at a permanent failure on a new object: the counter
  is not the old one plus one.
\<close>

theorem ec_OnFailure_permanent_counterexample:
  "IsPermanentFailure \<lparr>IsPermanentFailure = True\<rparr>
   \<and> ec_failure_count (snd (ec_OnFailure \<lparr>IsPermanentFailure = True\<rparr>
          (LimitedErrorCountRetryPolicy 3 (of_milliseconds 100) DefaultClock)))
      \<noteq> ec_failure_count (LimitedErrorCountRetryPolicy 3 (of_milliseconds 100) DefaultClock) + 1"
  by (simp add: ec_OnFailure_def LimitedErrorCountRetryPolicy_def)

text \<open>
  Claim C2, as amended. For every LimitedErrorCountRetryPolicy constructed with
  \<^verbatim>\<open>max_failures\<close> = N, N \<ge> 0, and fed N + 1 failures none of which is permanent, the
  first N calls of \<^verbatim>\<open>OnFailure\<close> return true and the (N+1)-th returns false. After the
  k-th of the first N calls the counter is k, so it grows by one at each of them; when N is
  below \<^verbatim>\<open>INT_MAX\<close> it is N + 1 after the last call as well.
\<close>

theorem ec_OnFailure_transient_run:
  assumes "0 \<le> sint N" and "length ss = nat (sint N) + 1"
    and "\<forall>s \<in> set ss. \<not> IsPermanentFailure s"
  shows "map fst (ec_OnFailure_seq (LimitedErrorCountRetryPolicy N R c) ss)
           = replicate (nat (sint N)) True @ [False]
         \<and> map (\<lambda>q. sint (ec_failure_count (snd q)))
               (take (nat (sint N)) (ec_OnFailure_seq (LimitedErrorCountRetryPolicy N R c) ss))
             = map int [1..<nat (sint N) + 1]
         \<and> (sint N < 2147483647 \<longrightarrow>
               map (\<lambda>q. sint (ec_failure_count (snd q)))
                 (ec_OnFailure_seq (LimitedErrorCountRetryPolicy N R c) ss)
               = map int [1..<nat (sint N) + 2])"
proof -
  let ?run = "ec_OnFailure_seq (LimitedErrorCountRetryPolicy N R c) ss"
  let ?n = "nat (sint N)"
  have len: "length ?run = ?n + 1" using assms(2) by (simp add: length_ec_OnFailure_seq)
  have n: "?n \<le> 2147483647" using sint_lt [of N] by simp
  have res: "fst (?run ! i) = (i < ?n)" if "i < ?n + 1" for i
  proof -
    have "i < 2147483647 \<or> i = ?n" using that n by arith
    then show ?thesis
    proof
      assume "i < 2147483647"
      then show ?thesis
        using ec_fresh_transient_nth(1) [OF assms(3), of i N R c] that assms(1,2) by auto
    next
      assume e: "i = ?n"
      have "ec_OnFailure_seq (LimitedErrorCountRetryPolicy N R c) ss ! i
              = (of_nat i <s N, \<lparr>ec_c = c, ec_rpc_duration = duration_cast_ms R,
                   ec_failure_count = of_nat i + 1, ec_max_failures = N\<rparr>)"
        using ec_OnFailure_seq_transient_nth [OF assms(3), of i "LimitedErrorCountRetryPolicy N R c"]
          that assms(2)
        by (simp add: LimitedErrorCountRetryPolicy_def)
      moreover have "(of_nat i :: cint) = N"
        using e assms(1) by simp
      ultimately show ?thesis using e by simp
    qed
  qed
  have cnt: "sint (ec_failure_count (snd (?run ! i))) = int i + 1" if "i < ?n + 1" "i < 2147483647" for i
    using ec_fresh_transient_nth(2) [OF assms(3), of i N R c] that assms(2) by simp
  have A: "map fst ?run = replicate ?n True @ [False]"
    by (rule nth_equalityI) (auto simp: len res nth_append)
  have B: "map (\<lambda>q. sint (ec_failure_count (snd q))) (take ?n ?run) = map int [1..<?n + 1]"
    using n by (intro nth_equalityI) (auto simp: len cnt simp del: upt_Suc)
  have C: "map (\<lambda>q. sint (ec_failure_count (snd q))) ?run = map int [1..<?n + 2]"
    if "sint N < 2147483647"
    using that by (intro nth_equalityI) (auto simp: len cnt simp del: upt_Suc)
  from A B C show ?thesis by blast
qed

text \<open>Three failures allowed, four transient failures fed.\<close>

theorem ec_OnFailure_transient_run_witness:
  "0 \<le> sint (3 :: cint)
   \<and> length (replicate 4 \<lparr>IsPermanentFailure = False\<rparr>) = nat (sint (3 :: cint)) + 1
   \<and> set (replicate 4 \<lparr>IsPermanentFailure = False\<rparr>) \<subseteq> {s. \<not> IsPermanentFailure s}
   \<and> sint (3 :: cint) < 2147483647
   \<and> map fst (ec_OnFailure_seq (LimitedErrorCountRetryPolicy 3 (of_milliseconds 100) DefaultClock)
         (replicate 4 \<lparr>IsPermanentFailure = False\<rparr>)) = [True, True, True, False]
   \<and> map (\<lambda>q. sint (ec_failure_count (snd q)))
         (ec_OnFailure_seq (LimitedErrorCountRetryPolicy 3 (of_milliseconds 100) DefaultClock)
           (replicate 4 \<lparr>IsPermanentFailure = False\<rparr>)) = [1, 2, 3, 4]"
proof -
  have h1: "0 \<le> sint (3 :: cint)" by simp
  have h2: "length (replicate 4 \<lparr>IsPermanentFailure = False\<rparr>) = nat (sint (3 :: cint)) + 1"
    by simp
  have h3: "\<forall>s \<in> set (replicate 4 \<lparr>IsPermanentFailure = False\<rparr>). \<not> IsPermanentFailure s"
    by simp
  have e1: "replicate (nat (sint (3 :: cint))) True @ [False] = [True, True, True, False]"
    by (simp add: eval_nat_numeral)
  have e2: "map int [1..<nat (sint (3 :: cint)) + 2] = [1, 2, 3, 4]"
    by (simp add: eval_nat_numeral upt_rec)
  show ?thesis
    using ec_OnFailure_transient_run [OF h1 h2 h3, of "of_milliseconds 100" DefaultClock] h1 h2 h3
    unfolding e1 e2 by simp
qed

text \<open>
  With N = \<^verbatim>\<open>INT_MAX\<close> the counter is \<^verbatim>\<open>INT_MAX\<close> after the N-th call, and the increment of
  the (N+1)-th call overflows: the counter does not grow across that call.
\<close>

theorem ec_OnFailure_transient_run_counterexample:
  "0 \<le> sint (2147483647 :: cint)
   \<and> sint (ec_failure_count (snd (ec_OnFailure_seq
         (LimitedErrorCountRetryPolicy 2147483647 (of_milliseconds 100) DefaultClock)
         (replicate 2147483648 \<lparr>IsPermanentFailure = False\<rparr>) ! 2147483646))) = 2147483647
   \<and> sint (ec_failure_count (snd (ec_OnFailure_seq
         (LimitedErrorCountRetryPolicy 2147483647 (of_milliseconds 100) DefaultClock)
         (replicate 2147483648 \<lparr>IsPermanentFailure = False\<rparr>) ! 2147483647))) = - 2147483648"
proof -
  let ?ss = "replicate 2147483648 \<lparr>IsPermanentFailure = False\<rparr>"
  let ?p = "LimitedErrorCountRetryPolicy 2147483647 (of_milliseconds 100) DefaultClock
              :: time_point LimitedErrorCountRetryPolicy"
  have t: "\<forall>s \<in> set ?ss. \<not> IsPermanentFailure s" by simp
  have a: "sint (ec_failure_count (snd (ec_OnFailure_seq ?p ?ss ! 2147483646))) = 2147483647"
    using ec_OnFailure_seq_transient_nth [OF t, of 2147483646 ?p]
    by (simp add: LimitedErrorCountRetryPolicy_def)
  have b: "sint (ec_failure_count (snd (ec_OnFailure_seq ?p ?ss ! 2147483647))) = - 2147483648"
    using ec_OnFailure_seq_transient_nth [OF t, of 2147483647 ?p]
    by (simp add: LimitedErrorCountRetryPolicy_def)
  from a b show ?thesis by simp
qed

section \<open>Exhaustion\<close>

text \<open>
  Claim C9, as amended. Exhaustion is sticky. For a LimitedErrorCountRetryPolicy whose
  failure counter has reached the configured maximum, every later call of \<^verbatim>\<open>OnFailure\<close>
  returns false, for any statuses, as long as the counter stays within \<^verbatim>\<open>int\<close>: the
  counter plus the number of later failures that are not permanent is at most \<^verbatim>\<open>INT_MAX\<close>.
  For a LimitedDurationRetryPolicy, once the clock has read a time at or past the fixed
  deadline and the later readings do not decrease, every later call of \<^verbatim>\<open>OnFailure\<close>
  returns false, for any statuses.
\<close>

theorem exhausted_sticky:
  "(sint (ec_max_failures p) \<le> sint (ec_failure_count p) \<longrightarrow>
    sint (ec_failure_count p) + int (length (filter (\<lambda>s. \<not> IsPermanentFailure s) ss))
      \<le> 2147483647 \<longrightarrow>
    (\<forall>q \<in> set (ec_OnFailure_seq p ss). \<not> fst q))
   \<and> (sint (ld_deadline d) \<le> sint (ld_c d w0) \<longrightarrow>
      sorted (sint (ld_c d w0) # map (\<lambda>c. sint (ld_c d (snd c))) cs) \<longrightarrow>
    (\<forall>q \<in> set (ld_OnFailure_seq d cs). \<not> fst q))"
  using ec_exhausted_seq [of p ss] ld_exhausted_seq [of d "sint (ld_c d w0)" cs] by blast

text \<open>
  No failure allowed, then three failures; and five seconds in all, the clock at 5 s,
  then failures at 5 s and at 5.1 s.
\<close>

theorem exhausted_sticky_witness:
  "sint (ec_max_failures (LimitedErrorCountRetryPolicy 0 (of_milliseconds 100) DefaultClock))
     \<le> sint (ec_failure_count (LimitedErrorCountRetryPolicy 0 (of_milliseconds 100) DefaultClock))
   \<and> map fst (ec_OnFailure_seq (LimitedErrorCountRetryPolicy 0 (of_milliseconds 100) DefaultClock)
         [\<lparr>IsPermanentFailure = False\<rparr>, \<lparr>IsPermanentFailure = True\<rparr>,
          \<lparr>IsPermanentFailure = False\<rparr>]) = [False, False, False]
   \<and> sint (ld_deadline (LimitedDurationRetryPolicy (of_seconds 5) (of_seconds 1) DefaultClock 0))
         \<le> sint (ld_c (LimitedDurationRetryPolicy (of_seconds 5) (of_seconds 1) DefaultClock 0)
              (5000 * ticks_per_ms))
   \<and> sorted (map sint [5000 * ticks_per_ms, 5000 * ticks_per_ms, 5100 * ticks_per_ms :: int64])
   \<and> map fst (ld_OnFailure_seq (LimitedDurationRetryPolicy (of_seconds 5) (of_seconds 1) DefaultClock 0)
         [(\<lparr>IsPermanentFailure = False\<rparr>, 5000 * ticks_per_ms),
          (\<lparr>IsPermanentFailure = False\<rparr>, 5100 * ticks_per_ms)]) = [False, False]"
  using exhausted_sticky
    [where p = "LimitedErrorCountRetryPolicy 0 (of_milliseconds 100) DefaultClock"
       and ss = "[\<lparr>IsPermanentFailure = False\<rparr>, \<lparr>IsPermanentFailure = True\<rparr>,
                  \<lparr>IsPermanentFailure = False\<rparr>]"
       and d = "LimitedDurationRetryPolicy (of_seconds 5) (of_seconds 1) DefaultClock 0"
       and ?w0.0 = "5000 * ticks_per_ms"
       and cs = "[(\<lparr>IsPermanentFailure = False\<rparr>, 5000 * ticks_per_ms),
                  (\<lparr>IsPermanentFailure = False\<rparr>, 5100 * ticks_per_ms)]"]
  by (simp add: LimitedErrorCountRetryPolicy_def LimitedDurationRetryPolicy_def
      duration_cast_ms_5s DefaultClock_def plus_ms_def ticks_per_ms_def ec_OnFailure_def
      ld_OnFailure_def)

text \<open>
  Without the bound the first half fails. With three failures allowed and only transient
  failures fed, the counter is at the maximum after the third call and the fourth call
  returns false; the call number 2147483648 overflows the counter, and the call after it
  returns true.
\<close>

theorem exhausted_sticky_counterexample:
  "ec_failure_count (snd (ec_OnFailure_seq
       (LimitedErrorCountRetryPolicy 3 (of_milliseconds 100) DefaultClock)
       (replicate 2147483649 \<lparr>IsPermanentFailure = False\<rparr>) ! 2))
     = ec_max_failures (snd (ec_OnFailure_seq
       (LimitedErrorCountRetryPolicy 3 (of_milliseconds 100) DefaultClock)
       (replicate 2147483649 \<lparr>IsPermanentFailure = False\<rparr>) ! 2))
   \<and> \<not> fst (ec_OnFailure_seq
       (LimitedErrorCountRetryPolicy 3 (of_milliseconds 100) DefaultClock)
       (replicate 2147483649 \<lparr>IsPermanentFailure = False\<rparr>) ! 3)
   \<and> fst (ec_OnFailure_seq
       (LimitedErrorCountRetryPolicy 3 (of_milliseconds 100) DefaultClock)
       (replicate 2147483649 \<lparr>IsPermanentFailure = False\<rparr>) ! 2147483648)"
proof -
  let ?ss = "replicate 2147483649 \<lparr>IsPermanentFailure = False\<rparr>"
  let ?p = "LimitedErrorCountRetryPolicy 3 (of_milliseconds 100) DefaultClock
              :: time_point LimitedErrorCountRetryPolicy"
  have t: "\<forall>s \<in> set ?ss. \<not> IsPermanentFailure s" by simp
  have a: "ec_OnFailure_seq ?p ?ss ! 2 = (True, ?p\<lparr>ec_failure_count := 3\<rparr>)"
    using ec_OnFailure_seq_transient_nth [OF t, of 2 ?p]
    by (simp add: LimitedErrorCountRetryPolicy_def word_sless_alt)
  have b: "\<not> fst (ec_OnFailure_seq ?p ?ss ! 3)"
    using ec_OnFailure_seq_transient_nth [OF t, of 3 ?p]
    by (simp add: LimitedErrorCountRetryPolicy_def word_sless_alt)
  have c: "fst (ec_OnFailure_seq ?p ?ss ! 2147483648)"
    using ec_OnFailure_seq_transient_nth [OF t, of 2147483648 ?p]
    by (simp add: LimitedErrorCountRetryPolicy_def word_sless_alt)
  from a b c show ?thesis by (simp add: LimitedErrorCountRetryPolicy_def)
qed

section \<open>Cloning\<close>

text \<open>
  Claim C5, as amended. In any internal state, \<^verbatim>\<open>clone\<close> yields an object equal to a
  newly constructed one with the same configuration and the same clock, so that every
  later call behaves on it as on a new object: the failure counter of the clone of a
  LimitedErrorCountRetryPolicy is zero, and the deadline of the clone of a
  LimitedDurationRetryPolicy is computed from the clock's reading at the time of the
  clone, whatever remained of the source's window. That deadline is the reading plus
  \<^verbatim>\<open>max_duration\<close> provided that neither the conversion of \<^verbatim>\<open>max_duration\<close> to the
  ticks of the clock nor the sum leaves the 64-bit count of the clock. \<^verbatim>\<open>clone\<close> leaves
  the source as it was; the clone is a new object on the heap, and a later
  \<^verbatim>\<open>OnFailure\<close> on it leaves the source as it was.
\<close>

theorem clone_fresh:
  "clone (ErrorCountLimited p) w
     = (ErrorCountLimited \<lparr>ec_c = ec_c p, ec_rpc_duration = ec_rpc_duration p,
          ec_failure_count = 0, ec_max_failures = ec_max_failures p\<rparr>,
        ErrorCountLimited p)
   \<and> clone (DurationLimited d) w = (DurationLimited (ld_copy d w), DurationLimited d)
   \<and> ld_c (ld_copy d w) = ld_c d
   \<and> ld_rpc_duration (ld_copy d w) = ld_rpc_duration d
   \<and> ld_max_duration (ld_copy d w) = ld_max_duration d
   \<and> (fits_int64 (sint (ld_max_duration d) * 1000000) \<longrightarrow>
      fits_int64 (sint (ld_c d w) + sint (ld_max_duration d) * 1000000) \<longrightarrow>
        sint (ld_deadline (ld_copy d w)) = sint (ld_c d w) + sint (ld_max_duration d) * 1000000)
   \<and> (\<forall>q \<in> set (ec_OnFailure_seq (LimitedErrorCountRetryPolicy N R c) ss).
         fst (clone (ErrorCountLimited (snd q)) w)
           = ErrorCountLimited (LimitedErrorCountRetryPolicy N R c))
   \<and> (\<forall>q \<in> set (ld_OnFailure_seq (LimitedDurationRetryPolicy D R' c' w0) cs).
         fst (clone (DurationLimited (snd q)) w)
           = DurationLimited (LimitedDurationRetryPolicy D R' c' w))
   \<and> (this < length h \<longrightarrow>
         heap_clone this w h = Some (length h, h @ [fst (clone (h ! this) w)])
         \<and> heap_OnFailure (length h) status w' (h @ [fst (clone (h ! this) w)])
             = Some (fst (OnFailure status w' (fst (clone (h ! this) w))),
                     h @ [snd (OnFailure status w' (fst (clone (h ! this) w)))])
         \<and> (h @ [snd (OnFailure status w' (fst (clone (h ! this) w)))]) ! this = h ! this)"
proof -
  have E: "clone (ErrorCountLimited p) w
     = (ErrorCountLimited \<lparr>ec_c = ec_c p, ec_rpc_duration = ec_rpc_duration p,
          ec_failure_count = 0, ec_max_failures = ec_max_failures p\<rparr>,
        ErrorCountLimited p)"
    by (simp add: ec_clone_def ec_copy_fields)
  have L: "clone (DurationLimited d) w = (DurationLimited (ld_copy d w), DurationLimited d)"
    by (simp add: ld_clone_def)
  have F: "ld_c (ld_copy d w) = ld_c d \<and> ld_rpc_duration (ld_copy d w) = ld_rpc_duration d
      \<and> ld_max_duration (ld_copy d w) = ld_max_duration d"
    by (simp add: ld_copy_fields)
  have G: "sint (ld_deadline (ld_copy d w)) = sint (ld_c d w) + sint (ld_max_duration d) * 1000000"
    if "fits_int64 (sint (ld_max_duration d) * 1000000)"
      and "fits_int64 (sint (ld_c d w) + sint (ld_max_duration d) * 1000000)"
    using that by (simp add: ld_copy_fields sint_plus_ms)
  have A: "fst (clone (ErrorCountLimited (snd q)) w)
             = ErrorCountLimited (LimitedErrorCountRetryPolicy N R c)"
    if "q \<in> set (ec_OnFailure_seq (LimitedErrorCountRetryPolicy N R c) ss)" for q
    using ec_OnFailure_seq_keeps [OF that]
    by (simp add: ec_clone_def ec_copy_fields) (simp add: LimitedErrorCountRetryPolicy_def)
  have B: "fst (clone (DurationLimited (snd q)) w)
             = DurationLimited (LimitedDurationRetryPolicy D R' c' w)"
    if "q \<in> set (ld_OnFailure_seq (LimitedDurationRetryPolicy D R' c' w0) cs)" for q
    using ld_OnFailure_seq_keeps [OF that]
    by (simp add: ld_clone_def ld_copy_fields) (simp add: LimitedDurationRetryPolicy_def)
  have C: "heap_clone this w h = Some (length h, h @ [fst (clone (h ! this) w)])
         \<and> heap_OnFailure (length h) status w' (h @ [fst (clone (h ! this) w)])
             = Some (fst (OnFailure status w' (fst (clone (h ! this) w))),
                     h @ [snd (OnFailure status w' (fst (clone (h ! this) w)))])
         \<and> (h @ [snd (OnFailure status w' (fst (clone (h ! this) w)))]) ! this = h ! this"
    if "this < length h"
    using that by (simp add: heap_clone_def heap_OnFailure_def nth_append clone_keeps)
  from E L F G A B C show ?thesis by blast
qed

text \<open>
  A clone after two failures out of three starts again at zero; a clone taken at 3 s of a
  policy of five seconds constructed at 0 has its deadline at 8 s; a failure reported to
  the clone at address 1 leaves the source at address 0 with its two failures.
\<close>

theorem clone_fresh_witness:
  "ec_OnFailure_seq (LimitedErrorCountRetryPolicy 3 (of_milliseconds 100) DefaultClock)
       [\<lparr>IsPermanentFailure = False\<rparr>, \<lparr>IsPermanentFailure = False\<rparr>]
     = [(True, \<lparr>ec_c = DefaultClock, ec_rpc_duration = 100, ec_failure_count = 1,
                 ec_max_failures = 3\<rparr>),
        (True, \<lparr>ec_c = DefaultClock, ec_rpc_duration = 100, ec_failure_count = 2,
                 ec_max_failures = 3\<rparr>)]
   \<and> clone (ErrorCountLimited \<lparr>ec_c = DefaultClock, ec_rpc_duration = 100, ec_failure_count = 2,
                 ec_max_failures = 3\<rparr>) 3000000000
     = (ErrorCountLimited \<lparr>ec_c = DefaultClock, ec_rpc_duration = 100, ec_failure_count = 0,
                 ec_max_failures = 3\<rparr>,
        ErrorCountLimited \<lparr>ec_c = DefaultClock, ec_rpc_duration = 100, ec_failure_count = 2,
                 ec_max_failures = 3\<rparr>)
   \<and> ld_OnFailure_seq (LimitedDurationRetryPolicy (of_seconds 5) (of_seconds 1) DefaultClock 0)
       [(\<lparr>IsPermanentFailure = False\<rparr>, 1000000000)]
     = [(True, \<lparr>ld_c = DefaultClock, ld_rpc_duration = 1000, ld_max_duration = 5000,
                 ld_deadline = 5000000000\<rparr>)]
   \<and> fits_int64 (sint (5000 :: int64) * 1000000)
   \<and> fits_int64 (sint (DefaultClock 3000000000) + sint (5000 :: int64) * 1000000)
   \<and> clone (DurationLimited \<lparr>ld_c = DefaultClock, ld_rpc_duration = 1000, ld_max_duration = 5000,
                 ld_deadline = 5000000000\<rparr>) 3000000000
     = (DurationLimited \<lparr>ld_c = DefaultClock, ld_rpc_duration = 1000, ld_max_duration = 5000,
                 ld_deadline = 8000000000\<rparr>,
        DurationLimited \<lparr>ld_c = DefaultClock, ld_rpc_duration = 1000, ld_max_duration = 5000,
                 ld_deadline = 5000000000\<rparr>)
   \<and> sint (ld_deadline (ld_copy \<lparr>ld_c = DefaultClock, ld_rpc_duration = 1000,
         ld_max_duration = 5000, ld_deadline = 5000000000\<rparr> 3000000000)) = 8000000000
   \<and> (0 :: nat) < length [ErrorCountLimited \<lparr>ec_c = DefaultClock, ec_rpc_duration = 100,
                 ec_failure_count = 2, ec_max_failures = 3\<rparr>]
   \<and> heap_clone 0 3000000000
         [ErrorCountLimited \<lparr>ec_c = DefaultClock, ec_rpc_duration = 100,
            ec_failure_count = 2, ec_max_failures = 3\<rparr>]
     = Some (1, [ErrorCountLimited \<lparr>ec_c = DefaultClock, ec_rpc_duration = 100,
                   ec_failure_count = 2, ec_max_failures = 3\<rparr>,
                 ErrorCountLimited \<lparr>ec_c = DefaultClock, ec_rpc_duration = 100,
                   ec_failure_count = 0, ec_max_failures = 3\<rparr>])
   \<and> heap_OnFailure 1 \<lparr>IsPermanentFailure = False\<rparr> 3500000000
         [ErrorCountLimited \<lparr>ec_c = DefaultClock, ec_rpc_duration = 100,
            ec_failure_count = 2, ec_max_failures = 3\<rparr>,
          ErrorCountLimited \<lparr>ec_c = DefaultClock, ec_rpc_duration = 100,
            ec_failure_count = 0, ec_max_failures = 3\<rparr>]
     = Some (True, [ErrorCountLimited \<lparr>ec_c = DefaultClock, ec_rpc_duration = 100,
                      ec_failure_count = 2, ec_max_failures = 3\<rparr>,
                    ErrorCountLimited \<lparr>ec_c = DefaultClock, ec_rpc_duration = 100,
                      ec_failure_count = 1, ec_max_failures = 3\<rparr>])
   \<and> fst (clone (ErrorCountLimited (snd (ec_OnFailure_seq
           (LimitedErrorCountRetryPolicy 3 (of_milliseconds 100) DefaultClock)
           [\<lparr>IsPermanentFailure = False\<rparr>, \<lparr>IsPermanentFailure = False\<rparr>] ! 1)))
         3000000000)
     = ErrorCountLimited (LimitedErrorCountRetryPolicy 3 (of_milliseconds 100) DefaultClock)
   \<and> fst (clone (DurationLimited (snd (ld_OnFailure_seq
           (LimitedDurationRetryPolicy (of_seconds 5) (of_seconds 1) DefaultClock 0)
           [(\<lparr>IsPermanentFailure = False\<rparr>, 1000000000)] ! 0)))
         3000000000)
     = DurationLimited (LimitedDurationRetryPolicy (of_seconds 5) (of_seconds 1) DefaultClock
         3000000000)"
proof -
  let ?t = "\<lparr>IsPermanentFailure = False\<rparr>"
  let ?p0 = "\<lparr>ec_c = DefaultClock, ec_rpc_duration = 100, ec_failure_count = 0,
               ec_max_failures = 3\<rparr>"
  let ?p1 = "\<lparr>ec_c = DefaultClock, ec_rpc_duration = 100, ec_failure_count = 1,
               ec_max_failures = 3\<rparr>"
  let ?p2 = "\<lparr>ec_c = DefaultClock, ec_rpc_duration = 100, ec_failure_count = 2,
               ec_max_failures = 3\<rparr>"
  let ?d = "\<lparr>ld_c = DefaultClock, ld_rpc_duration = 1000, ld_max_duration = 5000,
              ld_deadline = 5000000000\<rparr>"
  let ?d' = "\<lparr>ld_c = DefaultClock, ld_rpc_duration = 1000, ld_max_duration = 5000,
              ld_deadline = 8000000000\<rparr>"
  note T = clone_fresh
      [where p = ?p2 and d = ?d and w = 3000000000 and N = 3
         and R = "of_milliseconds 100" and c = DefaultClock and ss = "[?t, ?t]"
         and D = "of_seconds 5" and R' = "of_seconds 1" and c' = DefaultClock and ?w0.0 = 0
         and cs = "[(?t, 1000000000)]"
         and this = 0 and status = ?t and w' = 3500000000
         and h = "[ErrorCountLimited ?p2]"]
  have c1s: "duration_cast_ms (of_seconds 1) = 1000"
    by (simp add: duration_cast_ms_def int64_div_def cf_num_def cf_den_def of_seconds_def
        cpp_div_def)
  have c1: "ec_OnFailure_seq (LimitedErrorCountRetryPolicy 3 (of_milliseconds 100) DefaultClock)
       [?t, ?t] = [(True, ?p1), (True, ?p2)]"
    by (simp add: LimitedErrorCountRetryPolicy_def duration_cast_ms_of_milliseconds
        ec_OnFailure_def word_sless_alt)
  have c2: "clone (ErrorCountLimited ?p2) 3000000000
      = (ErrorCountLimited ?p0, ErrorCountLimited ?p2)"
    using T [THEN conjunct1] by simp
  have c3: "ld_OnFailure_seq (LimitedDurationRetryPolicy (of_seconds 5) (of_seconds 1) DefaultClock 0)
       [(?t, 1000000000)] = [(True, ?d)]"
    by (simp add: LimitedDurationRetryPolicy_def duration_cast_ms_5s c1s plus_ms_def
        DefaultClock_reads ld_OnFailure_def ticks_per_ms_def word_sless_alt)
  have f1: "fits_int64 (sint (5000 :: int64) * 1000000)"
    and f2: "fits_int64 (sint (DefaultClock 3000000000) + sint (5000 :: int64) * 1000000)"
    by (simp_all add: fits_int64_def DefaultClock_reads)
  have c4: "clone (DurationLimited ?d) 3000000000 = (DurationLimited ?d', DurationLimited ?d)"
    using T [THEN conjunct2, THEN conjunct1]
    by (simp add: ld_copy_fields plus_ms_def ticks_per_ms_def DefaultClock_reads)
  have c4': "sint (ld_deadline (ld_copy ?d 3000000000)) = 8000000000"
    using T [THEN conjunct2, THEN conjunct2, THEN conjunct2, THEN conjunct2, THEN conjunct2,
        THEN conjunct1] f1 f2
    by (simp add: DefaultClock_reads)
  have c5: "(0 :: nat) < length [ErrorCountLimited ?p2]" by simp
  note H = T [THEN conjunct2, THEN conjunct2, THEN conjunct2, THEN conjunct2, THEN conjunct2,
      THEN conjunct2, THEN conjunct2, THEN conjunct2, THEN mp, OF c5]
  have c6: "heap_clone 0 3000000000 [ErrorCountLimited ?p2]
              = Some (1, [ErrorCountLimited ?p2, ErrorCountLimited ?p0])"
    using H [THEN conjunct1] by (simp add: ec_clone_def ec_copy_fields)
  have c7: "heap_OnFailure 1 ?t 3500000000
              [ErrorCountLimited ?p2, ErrorCountLimited ?p0]
              = Some (True, [ErrorCountLimited ?p2, ErrorCountLimited ?p1])"
    using H [THEN conjunct2, THEN conjunct1]
    by (simp add: ec_clone_def ec_copy_fields ec_OnFailure_def word_sless_alt)
  let ?ec_run = "ec_OnFailure_seq
      (LimitedErrorCountRetryPolicy 3 (of_milliseconds 100) DefaultClock) [?t, ?t]"
  let ?ld_run = "ld_OnFailure_seq
      (LimitedDurationRetryPolicy (of_seconds 5) (of_seconds 1) DefaultClock 0)
      [(?t, 1000000000)]"
  have "?ec_run ! 1 \<in> set ?ec_run" by (rule nth_mem) (simp add: length_ec_OnFailure_seq)
  then have c8: "fst (clone (ErrorCountLimited (snd (?ec_run ! 1))) 3000000000)
      = ErrorCountLimited (LimitedErrorCountRetryPolicy 3 (of_milliseconds 100) DefaultClock)"
    by (rule T [THEN conjunct2, THEN conjunct2, THEN conjunct2, THEN conjunct2, THEN conjunct2,
          THEN conjunct2, THEN conjunct1, THEN bspec])
  have "?ld_run ! 0 \<in> set ?ld_run" by (rule nth_mem) simp
  then have c9: "fst (clone (DurationLimited (snd (?ld_run ! 0))) 3000000000)
      = DurationLimited (LimitedDurationRetryPolicy (of_seconds 5) (of_seconds 1) DefaultClock
          3000000000)"
    by (rule T [THEN conjunct2, THEN conjunct2, THEN conjunct2, THEN conjunct2, THEN conjunct2,
          THEN conjunct2, THEN conjunct2, THEN conjunct1, THEN bspec])
  show ?thesis
    by (intro conjI)
      (fact c1, fact c2, fact c3, fact f1, fact f2, fact c4, fact c4', fact c5, fact c6,
        fact c7, fact c8, fact c9)
qed

text \<open>
  The claim as it was written fails for a policy of \<^verbatim>\<open>milliseconds::max()\<close> in all: the
  deadline of its clone taken at 0 is 1 ms before 0.
\<close>

theorem clone_fresh_counterexample:
  "fst (clone (DurationLimited (LimitedDurationRetryPolicy (of_milliseconds 9223372036854775807)
          (of_seconds 1) DefaultClock 0)) 0)
     = DurationLimited \<lparr>ld_c = DefaultClock, ld_rpc_duration = 1000,
         ld_max_duration = 9223372036854775807, ld_deadline = - 1000000\<rparr>
   \<and> sint (- 1000000 :: int64) = - 1000000
   \<and> sint (DefaultClock 0) + sint (9223372036854775807 :: int64) * 1000000
       = 9223372036854775807000000"
proof -
  have c1s: "duration_cast_ms (of_seconds 1) = 1000"
    by (simp add: duration_cast_ms_def int64_div_def cf_num_def cf_den_def of_seconds_def
        cpp_div_def)
  have a: "fst (clone (DurationLimited (LimitedDurationRetryPolicy
          (of_milliseconds 9223372036854775807) (of_seconds 1) DefaultClock 0)) 0)
     = DurationLimited \<lparr>ld_c = DefaultClock, ld_rpc_duration = 1000,
         ld_max_duration = 9223372036854775807, ld_deadline = - 1000000\<rparr>"
    by (simp add: ld_clone_def ld_copy_fields)
      (simp add: LimitedDurationRetryPolicy_def duration_cast_ms_of_milliseconds c1s plus_ms_def
        ticks_per_ms_def DefaultClock_reads)
  have b: "sint (- 1000000 :: int64) = - 1000000" by simp
  have c: "sint (DefaultClock 0) + sint (9223372036854775807 :: int64) * 1000000
       = 9223372036854775807000000"
    by (simp add: DefaultClock_reads)
  from a b c show ?thesis by blast
qed

section \<open>What OperationDeadline leaves unchanged\<close>

text \<open>
  Claim C8. For both variants \<^verbatim>\<open>OperationDeadline\<close> changes no state: the object after
  the call is the object before it, two calls at the same clock reading return the same
  value, and a call inserted anywhere in a sequence of calls changes neither the other
  replies nor the final state. \<^verbatim>\<open>clone\<close> leaves its object unchanged as well. The final
  state and the replies of \<^verbatim>\<open>OnFailure\<close> are those of the sequence with all other calls
  removed: only \<^verbatim>\<open>OnFailure\<close> changes the state.
\<close>

theorem OperationDeadline_frame:
  "snd (OperationDeadline p w) = p
   \<and> snd (clone p w) = p
   \<and> call_seq p [(Call_OperationDeadline, w), (Call_OperationDeadline, w)]
       = ([Deadline (fst (OperationDeadline p w)), Deadline (fst (OperationDeadline p w))], p)
   \<and> call_seq p (xs @ (Call_OperationDeadline, w) # ys)
       = (fst (call_seq p xs) @ Deadline (fst (OperationDeadline (snd (call_seq p xs)) w))
            # drop (length xs) (fst (call_seq p (xs @ ys))),
          snd (call_seq p (xs @ ys)))
   \<and> snd (call_seq p calls) = snd (call_seq p (filter is_OnFailure calls))
   \<and> filter is_Retry (fst (call_seq p calls)) = fst (call_seq p (filter is_OnFailure calls))"
proof -
  have two: "call_seq p [(Call_OperationDeadline, w), (Call_OperationDeadline, w)]
       = ([Deadline (fst (OperationDeadline p w)), Deadline (fst (OperationDeadline p w))], p)"
    by (simp add: OperationDeadline_keeps)
  have ins: "call_seq p (xs @ (Call_OperationDeadline, w) # ys)
       = (fst (call_seq p xs) @ Deadline (fst (OperationDeadline (snd (call_seq p xs)) w))
            # drop (length xs) (fst (call_seq p (xs @ ys))),
          snd (call_seq p (xs @ ys)))"
    by (simp add: call_seq_append [of p xs] length_call_seq OperationDeadline_keeps)
  from two ins show ?thesis
    using call_seq_filter [of p calls] OperationDeadline_keeps [of p w] clone_keeps [of p w]
    by blast
qed

text \<open>
  For each variant, two transient failures with a deadline asked and a clone taken in
  between, and the same two failures alone.
\<close>

theorem OperationDeadline_frame_witness:
  "call_seq (ErrorCountLimited (LimitedErrorCountRetryPolicy 1 (of_milliseconds 100) DefaultClock))
       [(Call_OnFailure \<lparr>IsPermanentFailure = False\<rparr>, 0), (Call_OperationDeadline, 10),
        (Call_clone, 15), (Call_OnFailure \<lparr>IsPermanentFailure = False\<rparr>, 20)]
     = ([Retry True, Deadline 100000010,
         Cloned (ErrorCountLimited \<lparr>ec_c = DefaultClock, ec_rpc_duration = 100,
           ec_failure_count = 0, ec_max_failures = 1\<rparr>),
         Retry False],
        ErrorCountLimited \<lparr>ec_c = DefaultClock, ec_rpc_duration = 100, ec_failure_count = 2,
          ec_max_failures = 1\<rparr>)
   \<and> call_seq (ErrorCountLimited (LimitedErrorCountRetryPolicy 1 (of_milliseconds 100) DefaultClock))
       [(Call_OnFailure \<lparr>IsPermanentFailure = False\<rparr>, 0),
        (Call_OnFailure \<lparr>IsPermanentFailure = False\<rparr>, 20)]
     = ([Retry True, Retry False],
        ErrorCountLimited \<lparr>ec_c = DefaultClock, ec_rpc_duration = 100, ec_failure_count = 2,
          ec_max_failures = 1\<rparr>)
   \<and> call_seq (DurationLimited \<lparr>ld_c = DefaultClock, ld_rpc_duration = 1000,
          ld_max_duration = 5000, ld_deadline = 5000000000\<rparr>)
       [(Call_OperationDeadline, 4900000000),
        (Call_OnFailure \<lparr>IsPermanentFailure = False\<rparr>, 4900000000),
        (Call_clone, 4950000000),
        (Call_OnFailure \<lparr>IsPermanentFailure = False\<rparr>, 5100000000)]
     = ([Deadline 5000000000, Retry True,
         Cloned (DurationLimited \<lparr>ld_c = DefaultClock, ld_rpc_duration = 1000,
           ld_max_duration = 5000, ld_deadline = 9950000000\<rparr>),
         Retry False],
        DurationLimited \<lparr>ld_c = DefaultClock, ld_rpc_duration = 1000,
          ld_max_duration = 5000, ld_deadline = 5000000000\<rparr>)
   \<and> call_seq (DurationLimited \<lparr>ld_c = DefaultClock, ld_rpc_duration = 1000,
          ld_max_duration = 5000, ld_deadline = 5000000000\<rparr>)
       [(Call_OnFailure \<lparr>IsPermanentFailure = False\<rparr>, 4900000000),
        (Call_OnFailure \<lparr>IsPermanentFailure = False\<rparr>, 5100000000)]
     = ([Retry True, Retry False],
        DurationLimited \<lparr>ld_c = DefaultClock, ld_rpc_duration = 1000,
          ld_max_duration = 5000, ld_deadline = 5000000000\<rparr>)"
proof -
  let ?t = "\<lparr>IsPermanentFailure = False\<rparr>"
  let ?e = "ErrorCountLimited (LimitedErrorCountRetryPolicy 1 (of_milliseconds 100) DefaultClock)"
  let ?e2 = "ErrorCountLimited \<lparr>ec_c = DefaultClock, ec_rpc_duration = 100,
      ec_failure_count = 2, ec_max_failures = 1\<rparr>"
  let ?l = "DurationLimited \<lparr>ld_c = DefaultClock, ld_rpc_duration = 1000,
      ld_max_duration = 5000, ld_deadline = 5000000000\<rparr>"
  let ?ce = "[(Call_OnFailure ?t, 0), (Call_OperationDeadline, 10), (Call_clone, 15),
      (Call_OnFailure ?t, 20 :: time_point)]"
  let ?cl = "[(Call_OperationDeadline, 4900000000), (Call_OnFailure ?t, 4900000000),
      (Call_clone, 4950000000), (Call_OnFailure ?t, 5100000000 :: time_point)]"
  have fe: "filter is_OnFailure ?ce = [(Call_OnFailure ?t, 0), (Call_OnFailure ?t, 20)]"
    by simp
  have fl: "filter is_OnFailure ?cl
      = [(Call_OnFailure ?t, 4900000000), (Call_OnFailure ?t, 5100000000)]"
    by simp
  have a: "call_seq ?e ?ce
     = ([Retry True, Deadline 100000010,
         Cloned (ErrorCountLimited \<lparr>ec_c = DefaultClock, ec_rpc_duration = 100,
           ec_failure_count = 0, ec_max_failures = 1\<rparr>),
         Retry False], ?e2)"
    by (simp add: LimitedErrorCountRetryPolicy_def duration_cast_ms_of_milliseconds
        ec_OnFailure_def ec_OperationDeadline_def ec_clone_def ec_copy_fields plus_ms_def
        ticks_per_ms_def DefaultClock_reads word_sless_alt)
  have c: "call_seq ?l ?cl
     = ([Deadline 5000000000, Retry True,
         Cloned (DurationLimited \<lparr>ld_c = DefaultClock, ld_rpc_duration = 1000,
           ld_max_duration = 5000, ld_deadline = 9950000000\<rparr>),
         Retry False], ?l)"
    by (simp add: ld_OnFailure_def ld_OperationDeadline_def ld_clone_def ld_copy_fields
        plus_ms_def std_min_def ticks_per_ms_def DefaultClock_reads word_sless_alt)
  note Te = OperationDeadline_frame [where p = ?e and calls = ?ce]
  note Tl = OperationDeadline_frame [where p = ?l and calls = ?cl]
  have b: "call_seq ?e [(Call_OnFailure ?t, 0), (Call_OnFailure ?t, 20)]
      = ([Retry True, Retry False], ?e2)"
    using Te [THEN conjunct2, THEN conjunct2, THEN conjunct2, THEN conjunct2]
    unfolding fe a by (simp add: prod_eq_iff)
  have d: "call_seq ?l [(Call_OnFailure ?t, 4900000000), (Call_OnFailure ?t, 5100000000)]
      = ([Retry True, Retry False], ?l)"
    using Tl [THEN conjunct2, THEN conjunct2, THEN conjunct2, THEN conjunct2]
    unfolding fl c by (simp add: prod_eq_iff)
  show ?thesis by (intro conjI) (fact a, fact b, fact c, fact d)
qed

section \<open>Durations are truncated to milliseconds\<close>




end
